theory Spec2Isabelle
  imports Complex_Main
begin

section \<open>The material site editor (hexrd/ui/material_site_editor.py)\<close>

text \<open>
  The editor binds a crystallographic site (a dictionary with the keys
  \<^verbatim>\<open>total_occupancy\<close>, \<^verbatim>\<open>fractional_coords\<close> and \<^verbatim>\<open>atoms\<close>) to a form of spin boxes.
  The numbers of a site and of the widgets are finite Python floats, modelled as real
  numbers. Where a float operation decides a branch, in the validity test of the
  occupancies, its rounding is modelled (section on double arithmetic); where it only
  yields a stored value (unit conversion, division of the total occupancy) the result is
  the exact value, from which the double of the code differs by rounding only.
  Exceptions are values of \<open>py_error\<close>; a method that mutates the
  editor returns an \<open>outcome\<close>, which keeps the state reached when the exception was raised,
  since Python does not undo the assignments made before a raise.
\<close>

subsection \<open>Data\<close>

datatype py_error = Exception string | KeyError string | ZeroDivisionError

text \<open>
  An atom is a dictionary with the keys \<^verbatim>\<open>symbol\<close>, \<^verbatim>\<open>occupancy\<close> and \<^verbatim>\<open>U\<close>. The setter
  of \<^verbatim>\<open>atom_types\<close> creates atoms without the key \<^verbatim>\<open>occupancy\<close>, so this field is optional;
  reading it where it is absent raises \<^verbatim>\<open>KeyError\<close>. The key \<^verbatim>\<open>U\<close> is the field \<open>atom_U\<close>
  (the name \<open>U\<close> is the editor's conversion method).
\<close>

record Atom =
  symbol :: string
  occupancy :: "real option"
  atom_U :: real

text \<open>
  The fractional coordinates are a vector of three numbers, read and written at the
  indices 0, 1, 2 only; they are a triple here.
\<close>

record Site =
  total_occupancy :: real
  fractional_coords :: "real \<times> real \<times> real"
  atoms :: "Atom list"

text \<open>
  The editor: the site it refers to, the values held by the widgets of the form
  (\<open>thermal_factor_type\<close> is the current text of the combo box, \<open>ui_total_occupancy\<close>,
  \<open>coords_x\<close>, \<open>coords_y\<close>, \<open>coords_z\<close> the values of the four site spin boxes), the two
  lists of table spin boxes (each spin box is the value it holds), the style sheet and
  tool tip that \<^verbatim>\<open>update_occupancy_validity\<close> gives to the occupancy widgets, and the
  number of times the signal \<^verbatim>\<open>site_modified\<close> has been emitted.
\<close>

record MaterialSiteEditor =
  site :: Site
  thermal_factor_type :: string
  ui_total_occupancy :: real
  coords_x :: real
  coords_y :: real
  coords_z :: real
  occupancy_spinboxes :: "real list"
  thermal_factor_spinboxes :: "real list"
  styleSheet :: string
  toolTip :: string
  site_modified :: nat

datatype outcome = Done MaterialSiteEditor | Raised py_error MaterialSiteEditor

fun state_of :: "outcome \<Rightarrow> MaterialSiteEditor" where
  "state_of (Done s) = s"
| "state_of (Raised e s) = s"

text \<open>Sequencing of two statements: the second runs only if the first did not raise.\<close>

fun and_then :: "outcome \<Rightarrow> (MaterialSiteEditor \<Rightarrow> outcome) \<Rightarrow> outcome" where
  "and_then (Done s) f = f s"
| "and_then (Raised e s) f = Raised e s"

subsection \<open>Constants\<close>

definition OCCUPATION_MIN :: real where "OCCUPATION_MIN = 0"
definition OCCUPATION_MAX :: real where "OCCUPATION_MAX = 1000"
definition THERMAL_FACTOR_MIN :: real where "THERMAL_FACTOR_MIN = - (10 ^ 7)"
definition THERMAL_FACTOR_MAX :: real where "THERMAL_FACTOR_MAX = 10 ^ 7"

definition U_TO_B :: real where "U_TO_B = 8 * pi ^ 2"
definition B_TO_U :: real where "B_TO_U = 1 / U_TO_B"

subsection \<open>Thermal factor conversions\<close>

definition U :: "MaterialSiteEditor \<Rightarrow> real \<Rightarrow> py_error + real" where
  "U self val =
     (let ty = thermal_factor_type self in
      if ty = ''U'' then Inr (val * 1)
      else if ty = ''B'' then Inr (val * B_TO_U)
      else Inl (Exception (''Unknown type: '' @ ty)))"

definition B :: "MaterialSiteEditor \<Rightarrow> real \<Rightarrow> py_error + real" where
  "B self val =
     (let ty = thermal_factor_type self in
      if ty = ''U'' then Inr (val * U_TO_B)
      else if ty = ''B'' then Inr (val * 1)
      else Inl (Exception (''Unknown type: '' @ ty)))"

definition thermal_factor :: "MaterialSiteEditor \<Rightarrow> Atom \<Rightarrow> py_error + real" where
  "thermal_factor self atom =
     (let ty = thermal_factor_type self in
      if ty = ''U'' then Inr (atom_U atom * 1)
      else if ty = ''B'' then Inr (atom_U atom * U_TO_B)
      else Inl (Exception (''Unknown type: '' @ ty)))"

subsection \<open>Double arithmetic\<close>

text \<open>
  A Python float is an IEEE 754 binary64 number: 53 significant bits, exponents from
  -1022 to 1023, subnormal numbers below. The result of an addition or subtraction of two
  finite floats is the exact result rounded to the nearest such number, a tie going to the
  one with even significand, and it is infinite when the rounded value reaches \<open>2\<^sup>1\<^sup>0\<^sup>2\<^sup>4\<close>.
  The sign of an infinity plays no part below, so there is one infinite value.
\<close>

datatype double = Finite real | Infinite

definition round_half_even :: "real \<Rightarrow> int" where
  "round_half_even y =
     (let f = \<lfloor>y\<rfloor>; d = y - of_int f in
      if d < 1 / 2 then f
      else if 1 / 2 < d then f + 1
      else if even f then f else f + 1)"

text \<open>
  \<open>e\<close> is the exponent of \<open>x\<close>, or -1022 for a subnormal result, and \<open>q\<close> the distance
  between neighbouring doubles at that exponent.
\<close>

definition round_double :: "real \<Rightarrow> double" where
  "round_double x =
     (if x = 0 then Finite 0
      else
        (let e = max \<lfloor>log 2 \<bar>x\<bar>\<rfloor> (- 1022);
             q = 2 powr (of_int e - 52);
             r = q * of_int (round_half_even (x / q))
         in if \<bar>r\<bar> < 2 ^ 1024 then Finite r else Infinite))"

text \<open>
  \<^verbatim>\<open>a + v\<close> and \<^verbatim>\<open>a - v\<close> for a finite \<open>v\<close>: an infinite \<open>a\<close> stays infinite. \<^verbatim>\<open>abs(a) < t\<close>
  for a finite \<open>t\<close> is false for an infinite \<open>a\<close>.
\<close>

fun fadd :: "double \<Rightarrow> real \<Rightarrow> double" where
  "fadd (Finite a) v = round_double (a + v)"
| "fadd Infinite v = Infinite"

fun fsub :: "double \<Rightarrow> real \<Rightarrow> double" where
  "fsub (Finite a) v = round_double (a - v)"
| "fsub Infinite v = Infinite"

fun abs_less :: "double \<Rightarrow> real \<Rightarrow> bool" where
  "abs_less (Finite a) t = (\<bar>a\<bar> < t)"
| "abs_less Infinite t = False"

text \<open>The double that the literal \<^verbatim>\<open>1.e-6\<close> denotes: the one nearest to \<open>10\<^sup>-\<^sup>6\<close>.\<close>

definition float_1e_6 :: real where
  "float_1e_6 = 4722366482869645 / 2 ^ 72"

subsection \<open>Occupancy validity\<close>

text \<open>
  \<^verbatim>\<open>sum(x['occupancy'] for x in self.atoms)\<close>: the accumulator starts at 0 and the
  occupancies are added from left to right, each addition rounding; the first atom
  without the key raises.
\<close>

fun sum_occupancy :: "double \<Rightarrow> Atom list \<Rightarrow> py_error + double" where
  "sum_occupancy acc [] = Inr acc"
| "sum_occupancy acc (x # xs) =
     (case occupancy x of
        None \<Rightarrow> Inl (KeyError ''occupancy'')
      | Some v \<Rightarrow> sum_occupancy (fadd acc v) xs)"

definition occupancies_valid :: "MaterialSiteEditor \<Rightarrow> py_error + bool" where
  "occupancies_valid self =
     (case sum_occupancy (Finite 0) (atoms (site self)) of
        Inl e \<Rightarrow> Inl e
      | Inr tot \<Rightarrow>
          (let tol = float_1e_6 in
           Inr (abs_less (fsub tot (total_occupancy (site self))) tol)))"

definition site_valid :: "MaterialSiteEditor \<Rightarrow> py_error + bool" where
  "site_valid self = occupancies_valid self"

definition update_occupancy_validity :: "MaterialSiteEditor \<Rightarrow> outcome" where
  "update_occupancy_validity self =
     (case occupancies_valid self of
        Inl e \<Rightarrow> Raised e self
      | Inr valid \<Rightarrow>
          (let color = (if valid then ''white'' else ''red'');
               msg = (if valid then '''' else ''Sum of occupancies must equal total occupancy'')
           in Done (self\<lparr>styleSheet := ''background-color: '' @ color, toolTip := msg\<rparr>)))"

definition emit_site_modified_if_valid :: "MaterialSiteEditor \<Rightarrow> outcome" where
  "emit_site_modified_if_valid self =
     (case site_valid self of
        Inl e \<Rightarrow> Raised e self
      | Inr valid \<Rightarrow>
          (if \<not> valid then Done self
           else Done (self\<lparr>site_modified := site_modified self + 1\<rparr>)))"

subsection \<open>Writing the form back to the site\<close>

text \<open>
  \<^verbatim>\<open>for atom, spinbox in zip(self.atoms, self.occupancy_spinboxes)\<close>: the atoms and the
  spin boxes are paired by position and the loop ends with the shorter list.
\<close>

fun write_occupancies :: "Atom list \<Rightarrow> real list \<Rightarrow> Atom list" where
  "write_occupancies (atom # as) (v # vs) =
     atom\<lparr>occupancy := Some v\<rparr> # write_occupancies as vs"
| "write_occupancies as vs = as"

text \<open>
  The second loop converts each value with \<open>U\<close>, which may raise: the atoms written
  before the raise keep their new value.
\<close>

fun write_thermal_factors ::
  "MaterialSiteEditor \<Rightarrow> Atom list \<Rightarrow> real list \<Rightarrow> py_error option \<times> Atom list" where
  "write_thermal_factors self (atom # as) (v # vs) =
     (case U self v of
        Inl e \<Rightarrow> (Some e, atom # as)
      | Inr u \<Rightarrow>
          (case write_thermal_factors self as vs of
             (r, as') \<Rightarrow> (r, atom\<lparr>atom_U := u\<rparr> # as')))"
| "write_thermal_factors self as vs = (None, as)"

definition update_config :: "MaterialSiteEditor \<Rightarrow> outcome" where
  "update_config self =
     (let s1 = (site self)\<lparr>total_occupancy := ui_total_occupancy self\<rparr>;
          s2 = s1\<lparr>fractional_coords := (coords_x self, coords_y self, coords_z self)\<rparr>;
          s3 = s2\<lparr>atoms := write_occupancies (atoms s2) (occupancy_spinboxes self)\<rparr>
      in case write_thermal_factors self (atoms s3) (thermal_factor_spinboxes self) of
           (Some e, as) \<Rightarrow> Raised e (self\<lparr>site := s3\<lparr>atoms := as\<rparr>\<rparr>)
         | (None, as) \<Rightarrow>
             and_then (update_occupancy_validity (self\<lparr>site := s3\<lparr>atoms := as\<rparr>\<rparr>))
               emit_site_modified_if_valid)"

subsection \<open>Resetting the occupancies\<close>

text \<open>
  \<^verbatim>\<open>for atom in atoms: atom['occupancy'] = total / num_atoms\<close>: the division is in the
  body of the loop, and a division by zero raises \<^verbatim>\<open>ZeroDivisionError\<close>.
\<close>

fun reset_loop :: "real \<Rightarrow> nat \<Rightarrow> Atom list \<Rightarrow> py_error option \<times> Atom list" where
  "reset_loop tot num_atoms [] = (None, [])"
| "reset_loop tot num_atoms (atom # as) =
     (if num_atoms = 0 then (Some ZeroDivisionError, atom # as)
      else (case reset_loop tot num_atoms as of
              (r, as') \<Rightarrow> (r, atom\<lparr>occupancy := Some (tot / real num_atoms)\<rparr> # as')))"

definition reset_occupancies :: "MaterialSiteEditor \<Rightarrow> outcome" where
  "reset_occupancies self =
     (let tot = total_occupancy (site self);
          num_atoms = length (atoms (site self))
      in case reset_loop tot num_atoms (atoms (site self)) of
           (Some e, as) \<Rightarrow> Raised e (self\<lparr>site := (site self)\<lparr>atoms := as\<rparr>\<rparr>)
         | (None, as) \<Rightarrow>
             update_occupancy_validity (self\<lparr>site := (site self)\<lparr>atoms := as\<rparr>\<rparr>))"

subsection \<open>The table\<close>

text \<open>
  Modelled from the spec: the spin box class (hexrd.ui.scientificspinbox) is not among
  the sources. A spin box holds a value inside its range (occupancy in [0, 1000], thermal
  factor in [-1e7, 1e7]): a value set outside the range becomes the nearest bound. No
  statement below depends on the value a new spin box shows.
\<close>

definition spinbox_value :: "real \<Rightarrow> real \<Rightarrow> real \<Rightarrow> real" where
  "spinbox_value lo hi v = (if v < lo then lo else if hi < v then hi else v)"

definition create_occupancy_spinbox :: "MaterialSiteEditor \<Rightarrow> real \<Rightarrow> MaterialSiteEditor" where
  "create_occupancy_spinbox self v =
     self\<lparr>occupancy_spinboxes :=
       occupancy_spinboxes self @ [spinbox_value OCCUPATION_MIN OCCUPATION_MAX v]\<rparr>"

definition create_thermal_factor_spinbox ::
  "MaterialSiteEditor \<Rightarrow> real \<Rightarrow> MaterialSiteEditor" where
  "create_thermal_factor_spinbox self v =
     self\<lparr>thermal_factor_spinboxes :=
       thermal_factor_spinboxes self @ [spinbox_value THERMAL_FACTOR_MIN THERMAL_FACTOR_MAX v]\<rparr>"

definition clear_table :: "MaterialSiteEditor \<Rightarrow> MaterialSiteEditor" where
  "clear_table self = self\<lparr>occupancy_spinboxes := [], thermal_factor_spinboxes := []\<rparr>"

text \<open>The rows of the table, one per atom; the symbol labels of the table are not kept.\<close>

fun fill_table :: "MaterialSiteEditor \<Rightarrow> Atom list \<Rightarrow> outcome" where
  "fill_table self [] = Done self"
| "fill_table self (atom # as) =
     (case occupancy atom of
        None \<Rightarrow> Raised (KeyError ''occupancy'') self
      | Some occ \<Rightarrow>
          (let self1 = create_occupancy_spinbox self occ in
           case thermal_factor self1 atom of
             Inl e \<Rightarrow> Raised e self1
           | Inr tf \<Rightarrow> fill_table (create_thermal_factor_spinbox self1 tf) as))"

definition update_table :: "MaterialSiteEditor \<Rightarrow> outcome" where
  "update_table self =
     and_then (fill_table (clear_table self) (atoms (site self))) update_occupancy_validity"

subsection \<open>The atom types\<close>

definition atom_types :: "MaterialSiteEditor \<Rightarrow> string list" where
  "atom_types self = map symbol (atoms (site self))"

text \<open>
  The setter of \<^verbatim>\<open>atom_types\<close>. \<^verbatim>\<open>DEFAULT_U\<close> is \<^verbatim>\<open>Material.DFLT_U[0]\<close> of the hexrd
  library, which is not part of these sources: it is a parameter.
\<close>

definition set_atom_types :: "real \<Rightarrow> MaterialSiteEditor \<Rightarrow> string list \<Rightarrow> outcome" where
  "set_atom_types DEFAULT_U self v =
     (if v = atom_types self then Done self
      else
        (let as = map (\<lambda>x. \<lparr>symbol = x, occupancy = None, atom_U = DEFAULT_U\<rparr>) v;
             self1 = self\<lparr>site := (site self)\<lparr>atoms := as\<rparr>\<rparr>
         in and_then (and_then (reset_occupancies self1) update_table)
              emit_site_modified_if_valid))"

text \<open>
  \<^verbatim>\<open>select_atom_types\<close>: the periodic table dialog is either cancelled (\<open>None\<close>) or
  returns the selected symbols.
\<close>

definition select_atom_types ::
  "real \<Rightarrow> MaterialSiteEditor \<Rightarrow> string list option \<Rightarrow> outcome" where
  "select_atom_types DEFAULT_U self dialog =
     (case dialog of
        None \<Rightarrow> Done self
      | Some selected_atoms \<Rightarrow> set_atom_types DEFAULT_U self selected_atoms)"

subsection \<open>User edits\<close>

text \<open>
  A user edit changes the value held by one widget of the form; the widget then emits
  \<^verbatim>\<open>valueChanged\<close>, which \<^verbatim>\<open>setup_connections\<close> and the two spin box constructors
  connect to \<^verbatim>\<open>update_config\<close> (and, for the total occupancy, to
  \<^verbatim>\<open>update_occupancy_validity\<close> after it). The value of an edit is the value the widget
  holds afterwards. \<open>set_widget\<close> is \<open>None\<close> when no signal is emitted: the table has no
  spin box at that row, there is no such coordinate, or the value did not change.
\<close>

datatype edit =
    EditTotalOccupancy real
  | EditCoord nat real
  | EditOccupancy nat real
  | EditThermalFactor nat real

fun set_widget :: "MaterialSiteEditor \<Rightarrow> edit \<Rightarrow> MaterialSiteEditor option" where
  "set_widget self (EditTotalOccupancy v) =
     (if v = ui_total_occupancy self then None else Some (self\<lparr>ui_total_occupancy := v\<rparr>))"
| "set_widget self (EditCoord k v) =
     (if k = 0 then (if v = coords_x self then None else Some (self\<lparr>coords_x := v\<rparr>))
      else if k = 1 then (if v = coords_y self then None else Some (self\<lparr>coords_y := v\<rparr>))
      else if k = 2 then (if v = coords_z self then None else Some (self\<lparr>coords_z := v\<rparr>))
      else None)"
| "set_widget self (EditOccupancy i v) =
     (if i < length (occupancy_spinboxes self) \<and> occupancy_spinboxes self ! i \<noteq> v
      then Some (self\<lparr>occupancy_spinboxes := (occupancy_spinboxes self)[i := v]\<rparr>)
      else None)"
| "set_widget self (EditThermalFactor i v) =
     (if i < length (thermal_factor_spinboxes self) \<and> thermal_factor_spinboxes self ! i \<noteq> v
      then Some (self\<lparr>thermal_factor_spinboxes := (thermal_factor_spinboxes self)[i := v]\<rparr>)
      else None)"

fun slots :: "edit \<Rightarrow> MaterialSiteEditor \<Rightarrow> outcome" where
  "slots (EditTotalOccupancy v) w = and_then (update_config w) update_occupancy_validity"
| "slots ed w = update_config w"

definition user_edit :: "MaterialSiteEditor \<Rightarrow> edit \<Rightarrow> outcome" where
  "user_edit self ed =
     (case set_widget self ed of
        None \<Rightarrow> Done self
      | Some w \<Rightarrow> slots ed w)"

fun run_edits :: "MaterialSiteEditor \<Rightarrow> edit list \<Rightarrow> outcome" where
  "run_edits self [] = Done self"
| "run_edits self (ed # eds) = and_then (user_edit self ed) (\<lambda>s. run_edits s eds)"

subsection \<open>A concrete editor\<close>

text \<open>
  A site with one iron atom of occupancy 1 and the thermal factor shown as B; the form
  shows the values of the site.
\<close>

definition fe_atom :: Atom where
  "fe_atom = \<lparr>symbol = ''Fe'', occupancy = Some 1, atom_U = 0\<rparr>"

definition fe_site :: Site where
  "fe_site = \<lparr>total_occupancy = 1, fractional_coords = (0, 0, 0), atoms = [fe_atom]\<rparr>"

definition fe_editor :: MaterialSiteEditor where
  "fe_editor =
     \<lparr>site = fe_site, thermal_factor_type = ''B'', ui_total_occupancy = 1,
      coords_x = 0, coords_y = 0, coords_z = 0,
      occupancy_spinboxes = [1], thermal_factor_spinboxes = [0],
      styleSheet = ''background-color: white'', toolTip = [], site_modified = 0\<rparr>"

text \<open>
  The same editor with a table of two rows, one more than the site has atoms (the site
  was changed from outside and the table was not rebuilt).
\<close>

definition two_rows :: MaterialSiteEditor where
  "two_rows = fe_editor\<lparr>occupancy_spinboxes := [1, 1 / 4], thermal_factor_spinboxes := [0, 0]\<rparr>"

text \<open>
  A site with the given occupancies and total occupancy, and an editor on the site with the
  occupancies 0.1, 0.2, 0.3 and the total occupancy 0.6, each number the double that its
  decimal literal denotes.
\<close>

definition occupancy_site :: "real list \<Rightarrow> real \<Rightarrow> Site" where
  "occupancy_site os t =
     \<lparr>total_occupancy = t, fractional_coords = (0, 0, 0),
      atoms = map (\<lambda>v. fe_atom\<lparr>occupancy := Some v\<rparr>) os\<rparr>"

definition three_atoms :: MaterialSiteEditor where
  "three_atoms =
     fe_editor\<lparr>site := occupancy_site
        [3602879701896397 / 36028797018963968, 3602879701896397 / 18014398509481984,
         5404319552844595 / 18014398509481984] (5404319552844595 / 9007199254740992),
      ui_total_occupancy := 5404319552844595 / 9007199254740992,
      occupancy_spinboxes :=
        [3602879701896397 / 36028797018963968, 3602879701896397 / 18014398509481984,
         5404319552844595 / 18014398509481984],
      thermal_factor_spinboxes := [0, 0, 0]\<rparr>"

subsection \<open>Notions used in the statements\<close>


text \<open>
  A well-formed editor: the combo box shows one of its two entries, and every atom of the
  site has an occupancy.
\<close>

definition well_formed :: "MaterialSiteEditor \<Rightarrow> bool" where
  "well_formed self =
     ((thermal_factor_type self = ''U'' \<or> thermal_factor_type self = ''B'') \<and>
      list_all (\<lambda>a. occupancy a \<noteq> None) (atoms (site self)))"

text \<open>
  The test of the code on the occupancies \<open>os\<close> and the total occupancy \<open>t\<close>:
  \<^verbatim>\<open>abs(sum(os) - t) < 1.e-6\<close> in double arithmetic.
\<close>

definition within_tolerance :: "real list \<Rightarrow> real \<Rightarrow> bool" where
  "within_tolerance os t = abs_less (fsub (foldl fadd (Finite 0) os) t) float_1e_6"

text \<open>The site of the editor holds the value of the edit.\<close>

fun edit_stored :: "MaterialSiteEditor \<Rightarrow> edit \<Rightarrow> bool" where
  "edit_stored s (EditTotalOccupancy v) = (total_occupancy (site s) = v)"
| "edit_stored s (EditCoord k v) =
     (case fractional_coords (site s) of
        (x, y, z) \<Rightarrow> (if k = 0 then x = v else if k = 1 then y = v else z = v))"
| "edit_stored s (EditOccupancy i v) =
     (if i < length (atoms (site s)) then occupancy (atoms (site s) ! i) = Some v else True)"
| "edit_stored s (EditThermalFactor i v) =
     (if i < length (atoms (site s)) then U s v = Inr (atom_U (atoms (site s) ! i)) else True)"

section \<open>Properties\<close>

subsection \<open>The conversion constants\<close>



subsection \<open>Rounding to a double\<close>

text \<open>The rounding of a number whose exponent is known.\<close>

lemma round_double_binade:
  assumes "2 powr of_int e \<le> \<bar>x\<bar>" and "\<bar>x\<bar> < 2 powr (of_int e + 1)"
  shows "round_double x =
     (let q = 2 powr (of_int (max e (- 1022)) - 52);
          r = q * of_int (round_half_even (x / q))
      in if \<bar>r\<bar> < 2 ^ 1024 then Finite r else Infinite)"
proof -
  have "(0::real) < 2 powr of_int e"
    by simp
  with assms(1) have pos: "0 < \<bar>x\<bar>"
    by linarith
  then have "\<lfloor>log 2 \<bar>x\<bar>\<rfloor> = e"
    using assms by (simp add: floor_log_eq_powr_iff)
  with pos show ?thesis
    by (simp add: round_double_def Let_def)
qed

lemma round_double_0 [simp]: "round_double 0 = Finite 0"
  by (simp add: round_double_def)

lemma round_double_1 [simp]: "round_double 1 = Finite 1"
  using round_double_binade [of 0 1] by (simp add: round_half_even_def powr_minus)

lemma round_double_minus_1 [simp]: "round_double (- 1) = Finite (- 1)"
  using round_double_binade [of 0 "- 1"] by (simp add: round_half_even_def powr_minus)

lemma round_double_half [simp]: "round_double (1 / 2) = Finite (1 / 2)"
  using round_double_binade [of "- 1" "1 / 2"] by (simp add: round_half_even_def powr_minus)

lemma round_double_minus_half [simp]: "round_double (- (1 / 2)) = Finite (- (1 / 2))"
  using round_double_binade [of "- 1" "- (1 / 2)"]
  by (simp add: round_half_even_def powr_minus)

text \<open>
  At the ends of the range: half an ulp above the largest double rounds to infinity, the
  largest double is kept, half the smallest subnormal rounds to 0 and one and a half
  times the smallest subnormal rounds to twice it (ties go to the even significand).
\<close>

lemma round_double_extremes:
  shows "round_double (2 ^ 1024 - 2 ^ 970) = Infinite"
    and "round_double (2 ^ 1024 - 2 ^ 971) = Finite (2 ^ 1024 - 2 ^ 971)"
    and "round_double (1 / 2 ^ 1075) = Finite 0"
    and "round_double (3 / 2 ^ 1075) = Finite (2 / 2 ^ 1074)"
proof -
  show "round_double (2 ^ 1024 - 2 ^ 970) = Infinite"
    using round_double_binade [of 1023 "2 ^ 1024 - 2 ^ 970"]
    by (simp add: round_half_even_def powr_minus)
  show "round_double (2 ^ 1024 - 2 ^ 971) = Finite (2 ^ 1024 - 2 ^ 971)"
    using round_double_binade [of 1023 "2 ^ 1024 - 2 ^ 971"]
    by (simp add: round_half_even_def powr_minus)
  show "round_double (1 / 2 ^ 1075) = Finite 0"
    using round_double_binade [of "- 1075" "1 / 2 ^ 1075"]
    by (simp add: round_half_even_def powr_minus)
  show "round_double (3 / 2 ^ 1075) = Finite (2 / 2 ^ 1074)"
    using round_double_binade [of "- 1074" "3 / 2 ^ 1075"]
    by (simp add: round_half_even_def powr_minus)
qed

text \<open>The tolerance is the double nearest to \<open>10\<^sup>-\<^sup>6\<close>, and it is below \<open>10\<^sup>-\<^sup>6\<close>.\<close>

lemma float_1e_6_literal: "round_double (1 / 10 ^ 6) = Finite float_1e_6"
  using round_double_binade [of "- 20" "1 / 10 ^ 6"]
  by (simp add: round_half_even_def powr_minus float_1e_6_def)

lemma float_1e_6_less: "float_1e_6 < 1 / 10 ^ 6"
  by (simp add: float_1e_6_def)

lemma float_1e_6_pos: "0 < float_1e_6"
  by (simp add: float_1e_6_def)

text \<open>
  The sum of the doubles 0.1, 0.2 and 0.3, and its difference from the double 0.600001:
  the second and the third addition round up.
\<close>

lemma tenths_sum:
  shows "fadd (Finite 0) (3602879701896397 / 36028797018963968) =
      Finite (3602879701896397 / 36028797018963968)"
    and "fadd (Finite (3602879701896397 / 36028797018963968))
      (3602879701896397 / 18014398509481984) = Finite (1351079888211149 / 4503599627370496)"
    and "fadd (Finite (1351079888211149 / 4503599627370496))
      (5404319552844595 / 18014398509481984) = Finite (1351079888211149 / 2251799813685248)"
    and "fsub (Finite (1351079888211149 / 2251799813685248))
      (2702164280021925 / 4503599627370496) = Finite (- (4503599627 / 4503599627370496))"
proof -
  show "fadd (Finite 0) (3602879701896397 / 36028797018963968) =
      Finite (3602879701896397 / 36028797018963968)"
    using round_double_binade [of "- 4" "0 + 3602879701896397 / 36028797018963968"]
    by (simp add: round_half_even_def powr_minus)
  show "fadd (Finite (3602879701896397 / 36028797018963968))
      (3602879701896397 / 18014398509481984) = Finite (1351079888211149 / 4503599627370496)"
    using round_double_binade [of "- 2"
        "3602879701896397 / 36028797018963968 + 3602879701896397 / 18014398509481984"]
    by (simp add: round_half_even_def powr_minus)
  show "fadd (Finite (1351079888211149 / 4503599627370496))
      (5404319552844595 / 18014398509481984) = Finite (1351079888211149 / 2251799813685248)"
    using round_double_binade [of "- 1"
        "1351079888211149 / 4503599627370496 + 5404319552844595 / 18014398509481984"]
    by (simp add: round_half_even_def powr_minus)
  show "fsub (Finite (1351079888211149 / 2251799813685248))
      (2702164280021925 / 4503599627370496) = Finite (- (4503599627 / 4503599627370496))"
    using round_double_binade [of "- 20"
        "1351079888211149 / 2251799813685248 - 2702164280021925 / 4503599627370496"]
    by (simp add: round_half_even_def powr_minus)
qed

subsection \<open>Lists of atoms\<close>

lemma sum_occupancy_Some:
  "map occupancy as = map Some os \<Longrightarrow> sum_occupancy acc as = Inr (foldl fadd acc os)"
  by (induction as arbitrary: acc os) auto

lemma occupancies_listed:
  "list_all (\<lambda>a. occupancy a \<noteq> None) as \<Longrightarrow> \<exists>os. map occupancy as = map Some os"
proof (induction as)
  case Nil
  then show ?case by simp
next
  case (Cons a as)
  then obtain os v where "map occupancy as = map Some os" "occupancy a = Some v"
    by auto
  then have "map occupancy (a # as) = map Some (v # os)"
    by simp
  then show ?case by blast
qed

lemma listed_occupancies:
  "map occupancy as = map Some os \<Longrightarrow> list_all (\<lambda>a. occupancy a \<noteq> None) as"
  by (induction as arbitrary: os) auto

lemma length_write_occupancies [simp]: "length (write_occupancies as vs) = length as"
  by (induction as vs rule: write_occupancies.induct) auto

lemma write_occupancies_has:
  "list_all (\<lambda>a. occupancy a \<noteq> None) as \<Longrightarrow>
   list_all (\<lambda>a. occupancy a \<noteq> None) (write_occupancies as vs)"
  by (induction as vs rule: write_occupancies.induct) auto

lemma write_occupancies_nth:
  "i < length as \<Longrightarrow> i < length vs \<Longrightarrow>
   occupancy (write_occupancies as vs ! i) = Some (vs ! i)"
  by (induction as vs arbitrary: i rule: write_occupancies.induct) (auto simp: nth_Cons')

lemma write_occupancies_beyond:
  "length as \<le> i \<Longrightarrow> write_occupancies as (vs[i := v]) = write_occupancies as vs"
proof (induction as vs arbitrary: i rule: write_occupancies.induct)
  case (1 atom as w ws)
  then obtain j where "i = Suc j" "length as \<le> j"
    by (cases i) auto
  with 1 show ?case by simp
qed auto

lemma write_thermal_factors_beyond:
  "length as \<le> i \<Longrightarrow>
   write_thermal_factors s as (vs[i := v]) = write_thermal_factors s as vs"
proof (induction s as vs arbitrary: i rule: write_thermal_factors.induct)
  case (1 s atom as w ws)
  then obtain j where "i = Suc j" "length as \<le> j"
    by (cases i) auto
  with 1 show ?case by (simp split: sum.splits)
qed auto

lemma write_thermal_factors_type:
  "thermal_factor_type s = thermal_factor_type s' \<Longrightarrow>
   write_thermal_factors s as vs = write_thermal_factors s' as vs"
  by (induction s as vs rule: write_thermal_factors.induct)
     (auto simp: U_def split: sum.splits prod.splits)

lemma write_thermal_factors_occupancy:
  "map occupancy (snd (write_thermal_factors s as vs)) = map occupancy as"
  by (induction s as vs rule: write_thermal_factors.induct)
     (auto split: sum.splits prod.splits)

lemma length_write_thermal_factors [simp]:
  "length (snd (write_thermal_factors s as vs)) = length as"
  by (induction s as vs rule: write_thermal_factors.induct)
     (auto split: sum.splits prod.splits)

lemma U_known:
  "thermal_factor_type s = ''U'' \<or> thermal_factor_type s = ''B'' \<Longrightarrow> \<exists>u. U s v = Inr u"
  by (auto simp: U_def)

lemma write_thermal_factors_known:
  "thermal_factor_type s = ''U'' \<or> thermal_factor_type s = ''B'' \<Longrightarrow>
   fst (write_thermal_factors s as vs) = None"
proof (induction s as vs rule: write_thermal_factors.induct)
  case (1 s atom as v vs)
  from U_known [OF 1(2)] obtain u where "U s v = Inr u"
    by blast
  with 1 show ?case by (auto split: prod.splits)
qed auto

lemma write_thermal_factors_nth:
  "fst (write_thermal_factors s as vs) = None \<Longrightarrow> i < length as \<Longrightarrow> i < length vs \<Longrightarrow>
   U s (vs ! i) = Inr (atom_U (snd (write_thermal_factors s as vs) ! i))"
  by (induction s as vs arbitrary: i rule: write_thermal_factors.induct)
     (auto simp: nth_Cons' split: sum.splits prod.splits)

subsection \<open>What each method does to the site\<close>

lemma site_and_then:
  "(\<And>s. site (state_of (f s)) = site s) \<Longrightarrow>
   site (state_of (and_then r f)) = site (state_of r)"
  by (cases r) auto

lemma site_update_occupancy_validity [simp]:
  "site (state_of (update_occupancy_validity s)) = site s"
  by (simp add: update_occupancy_validity_def split: sum.splits)

lemma site_emit [simp]: "site (state_of (emit_site_modified_if_valid s)) = site s"
  by (simp add: emit_site_modified_if_valid_def split: sum.splits)

lemma site_fill_table [simp]: "site (state_of (fill_table s as)) = site s"
  by (induction s as rule: fill_table.induct)
     (auto simp: create_occupancy_spinbox_def create_thermal_factor_spinbox_def Let_def
           split: option.splits sum.splits)

lemma site_update_table [simp]: "site (state_of (update_table s)) = site s"
  by (simp add: update_table_def site_and_then clear_table_def)

lemma reset_loop_pos:
  "0 < n \<Longrightarrow>
   reset_loop tot n as = (None, map (\<lambda>a. a\<lparr>occupancy := Some (tot / real n)\<rparr>) as)"
  by (induction as) auto

lemma reset_loop_length:
  "reset_loop tot (length as) as =
     (None, map (\<lambda>a. a\<lparr>occupancy := Some (tot / real (length as))\<rparr>) as)"
  by (cases as) (simp_all add: reset_loop_pos del: reset_loop.simps(2))

lemma site_reset_occupancies:
  "site (state_of (reset_occupancies s)) =
     (site s)\<lparr>atoms :=
        map (\<lambda>a. a\<lparr>occupancy :=
               Some (total_occupancy (site s) / real (length (atoms (site s))))\<rparr>)
          (atoms (site s))\<rparr>"
  by (simp add: reset_occupancies_def Let_def reset_loop_length)

lemma site_set_atom_types:
  "v \<noteq> atom_types self \<Longrightarrow>
   site (state_of (set_atom_types d self v)) =
     (site self)\<lparr>atoms :=
        map (\<lambda>x. \<lparr>symbol = x,
                  occupancy = Some (total_occupancy (site self) / real (length v)),
                  atom_U = d\<rparr>) v\<rparr>"
  by (simp add: set_atom_types_def Let_def site_and_then site_reset_occupancies comp_def)

lemma site_update_config:
  "site (state_of (update_config s)) =
     (site s)\<lparr>total_occupancy := ui_total_occupancy s,
       fractional_coords := (coords_x s, coords_y s, coords_z s),
       atoms := snd (write_thermal_factors s
          (write_occupancies (atoms (site s)) (occupancy_spinboxes s))
          (thermal_factor_spinboxes s))\<rparr>"
  by (simp add: update_config_def Let_def site_and_then split: prod.splits option.splits)

subsection \<open>Writing back a well-formed editor\<close>

lemma occupancies_valid_listed:
  "map occupancy (atoms (site s)) = map Some os \<Longrightarrow>
   occupancies_valid s = Inr (within_tolerance os (total_occupancy (site s)))"
  by (simp add: occupancies_valid_def sum_occupancy_Some within_tolerance_def)

lemma update_occupancy_validity_listed:
  assumes "map occupancy (atoms (site s)) = map Some os"
  shows "\<exists>c m. update_occupancy_validity s = Done (s\<lparr>styleSheet := c, toolTip := m\<rparr>)"
proof -
  from occupancies_valid_listed [OF assms] obtain b where "occupancies_valid s = Inr b"
    by blast
  then show ?thesis
    unfolding update_occupancy_validity_def Let_def by (simp only: sum.case) blast
qed

lemma emit_listed:
  assumes "map occupancy (atoms (site s)) = map Some os"
  shows "emit_site_modified_if_valid s =
     Done (s\<lparr>site_modified := site_modified s +
        (if within_tolerance os (total_occupancy (site s)) then 1 else 0)\<rparr>)"
  using occupancies_valid_listed [OF assms]
  by (simp add: emit_site_modified_if_valid_def site_valid_def)

lemma update_config_well_formed:
  assumes wf: "well_formed s"
  shows "\<exists>os c m. map occupancy (atoms (site (state_of (update_config s)))) = map Some os \<and>
     update_config s =
       Done (s\<lparr>site := site (state_of (update_config s)), styleSheet := c, toolTip := m,
          site_modified := site_modified s +
            (if within_tolerance os (ui_total_occupancy s) then 1 else 0)\<rparr>)"
proof -
  let ?as1 = "write_occupancies (atoms (site s)) (occupancy_spinboxes s)"
  let ?r = "write_thermal_factors s ?as1 (thermal_factor_spinboxes s)"
  from wf have ty: "thermal_factor_type s = ''U'' \<or> thermal_factor_type s = ''B''"
    and occ: "list_all (\<lambda>a. occupancy a \<noteq> None) (atoms (site s))"
    by (simp_all add: well_formed_def)
  obtain as2 where r: "?r = (None, as2)"
    using write_thermal_factors_known [OF ty, of ?as1 "thermal_factor_spinboxes s"]
    by (cases ?r) auto
  define S where "S = (site s)\<lparr>total_occupancy := ui_total_occupancy s,
       fractional_coords := (coords_x s, coords_y s, coords_z s), atoms := as2\<rparr>"
  have S: "site (state_of (update_config s)) = S"
    by (simp add: site_update_config r S_def)
  have "list_all (\<lambda>a. occupancy a \<noteq> None) ?as1"
    using occ by (rule write_occupancies_has)
  then obtain os where "map occupancy ?as1 = map Some os"
    using occupancies_listed by blast
  then have os: "map occupancy (atoms S) = map Some os"
    using write_thermal_factors_occupancy [of s ?as1 "thermal_factor_spinboxes s"]
    by (simp add: S_def r)
  define X where "X = s\<lparr>site := S\<rparr>"
  have uc: "update_config s = and_then (update_occupancy_validity X) emit_site_modified_if_valid"
    by (simp add: update_config_def Let_def r X_def S_def)
  from os have osX: "map occupancy (atoms (site X)) = map Some os"
    by (simp add: X_def)
  from update_occupancy_validity_listed [OF osX] obtain c m
    where uv: "update_occupancy_validity X = Done (X\<lparr>styleSheet := c, toolTip := m\<rparr>)"
    by blast
  define Y where "Y = X\<lparr>styleSheet := c, toolTip := m\<rparr>"
  from os have osY: "map occupancy (atoms (site Y)) = map Some os"
    by (simp add: X_def Y_def)
  have tot: "total_occupancy (site Y) = ui_total_occupancy s"
    by (simp add: S_def X_def Y_def)
  have "update_config s = emit_site_modified_if_valid Y"
    by (simp add: uc uv Y_def)
  also have "\<dots> = Done (Y\<lparr>site_modified := site_modified Y +
            (if within_tolerance os (ui_total_occupancy s) then 1 else 0)\<rparr>)"
    using emit_listed [OF osY] by (simp only: tot)
  also have "\<dots> = Done (s\<lparr>site := S, styleSheet := c, toolTip := m,
          site_modified := site_modified s +
            (if within_tolerance os (ui_total_occupancy s) then 1 else 0)\<rparr>)"
    by (simp add: X_def Y_def)
  finally have "update_config s = Done (s\<lparr>site := S, styleSheet := c, toolTip := m,
          site_modified := site_modified s +
            (if within_tolerance os (ui_total_occupancy s) then 1 else 0)\<rparr>)" .
  with os show ?thesis unfolding S by blast
qed

text \<open>The outcome of the slots of an edit, in the form used below.\<close>

lemma slots_well_formed:
  assumes wf: "well_formed w"
  shows "\<exists>s' os. slots ed w = Done s' \<and> well_formed s' \<and>
     site s' = site (state_of (update_config w)) \<and>
     thermal_factor_type s' = thermal_factor_type w \<and>
     map occupancy (atoms (site s')) = map Some os \<and>
     site_modified s' = site_modified w +
       (if within_tolerance os (total_occupancy (site s')) then 1 else 0)"
proof -
  from update_config_well_formed [OF wf] obtain os c m where
    os: "map occupancy (atoms (site (state_of (update_config w)))) = map Some os" and
    uc: "update_config w =
       Done (w\<lparr>site := site (state_of (update_config w)), styleSheet := c, toolTip := m,
          site_modified := site_modified w +
            (if within_tolerance os (ui_total_occupancy w) then 1 else 0)\<rparr>)"
    by blast
  define s1 where "s1 = w\<lparr>site := site (state_of (update_config w)), styleSheet := c,
     toolTip := m, site_modified := site_modified w +
            (if within_tolerance os (ui_total_occupancy w) then 1 else 0)\<rparr>"
  have uc1: "update_config w = Done s1"
    using uc by (simp add: s1_def)
  have site1: "site s1 = site (state_of (update_config w))"
    by (simp add: s1_def)
  have tot: "total_occupancy (site s1) = ui_total_occupancy w"
    by (simp add: site1 site_update_config)
  have os1: "map occupancy (atoms (site s1)) = map Some os"
    using os by (simp add: site1)
  have ty1: "thermal_factor_type s1 = thermal_factor_type w"
    by (simp add: s1_def)
  have sm1: "site_modified s1 = site_modified w +
       (if within_tolerance os (total_occupancy (site s1)) then 1 else 0)"
    unfolding tot by (simp add: s1_def)
  have wf1: "well_formed s1"
    using wf listed_occupancies [OF os1] by (simp add: well_formed_def ty1)
  show ?thesis
  proof (cases "\<exists>v. ed = EditTotalOccupancy v")
    case False
    then have "slots ed w = update_config w"
      by (cases ed) auto
    with uc1 wf1 site1 ty1 os1 sm1 show ?thesis by auto
  next
    case True
    then have sl: "slots ed w = update_occupancy_validity s1"
      using uc1 by auto
    from update_occupancy_validity_listed [OF os1] obtain c' m' where
      uv: "update_occupancy_validity s1 = Done (s1\<lparr>styleSheet := c', toolTip := m'\<rparr>)"
      by blast
    let ?s2 = "s1\<lparr>styleSheet := c', toolTip := m'\<rparr>"
    have "slots ed w = Done ?s2"
      by (simp add: sl uv)
    moreover have "well_formed ?s2"
      using wf1 by (simp add: well_formed_def)
    moreover have "site ?s2 = site (state_of (update_config w))"
      by (simp add: site1)
    moreover have "thermal_factor_type ?s2 = thermal_factor_type w"
      by (simp add: ty1)
    moreover have "map occupancy (atoms (site ?s2)) = map Some os"
      using os1 by simp
    moreover have "site_modified ?s2 = site_modified w +
       (if within_tolerance os (total_occupancy (site ?s2)) then 1 else 0)"
      using sm1 by simp
    ultimately show ?thesis by blast
  qed
qed

lemma set_widget_same:
  "set_widget s ed = Some w \<Longrightarrow>
   site w = site s \<and> thermal_factor_type w = thermal_factor_type s \<and>
   site_modified w = site_modified s"
  by (cases ed) (auto split: if_splits)

lemma set_widget_well_formed:
  "well_formed s \<Longrightarrow> set_widget s ed = Some w \<Longrightarrow> well_formed w"
  using set_widget_same [of s ed w] by (simp add: well_formed_def)

lemma user_edit_well_formed:
  assumes "well_formed s"
  shows "\<exists>s'. user_edit s ed = Done s' \<and> well_formed s'"
proof (cases "set_widget s ed")
  case None
  with assms show ?thesis by (simp add: user_edit_def)
next
  case (Some w)
  from slots_well_formed [OF set_widget_well_formed [OF assms Some], of ed]
  show ?thesis by (auto simp: user_edit_def Some)
qed

lemma run_edits_well_formed:
  "well_formed s \<Longrightarrow> \<exists>s'. run_edits s eds = Done s' \<and> well_formed s'"
proof (induction eds arbitrary: s)
  case Nil
  then show ?case by simp
next
  case (Cons ed eds)
  from user_edit_well_formed [OF Cons.prems, of ed] obtain s1
    where "user_edit s ed = Done s1" "well_formed s1" by blast
  with Cons.IH [of s1] show ?case by simp
qed

lemma and_then_Done [simp]: "and_then r Done = r"
  by (cases r) auto

lemma run_edits_snoc:
  "run_edits s (eds @ [ed]) = and_then (run_edits s eds) (\<lambda>s'. user_edit s' ed)"
proof (induction eds arbitrary: s)
  case Nil
  show ?case by (simp del: and_then_Done) (cases "user_edit s ed"; simp)
next
  case (Cons e eds)
  show ?case by (cases "user_edit s e") (simp_all add: Cons.IH)
qed

lemma edit_stored_after:
  assumes wf: "well_formed w"
    and sw: "set_widget s ed = Some w"
    and site: "site s' = site (state_of (update_config w))"
    and ty: "thermal_factor_type s' = thermal_factor_type w"
  shows "edit_stored s' ed"
proof -
  let ?as1 = "write_occupancies (atoms (site w)) (occupancy_spinboxes w)"
  let ?r = "write_thermal_factors w ?as1 (thermal_factor_spinboxes w)"
  have at: "atoms (site s') = snd ?r"
    by (simp add: site site_update_config)
  have len: "length (atoms (site s')) = length (atoms (site w))"
    by (simp add: at)
  show ?thesis
  proof (cases ed)
    case (EditTotalOccupancy v)
    with sw show ?thesis
      by (auto simp: site site_update_config split: if_splits)
  next
    case (EditCoord k v)
    with sw show ?thesis
      by (auto simp: site site_update_config split: if_splits)
  next
    case (EditOccupancy i v)
    with sw have i: "i < length (occupancy_spinboxes w)" and v: "occupancy_spinboxes w ! i = v"
      by (auto split: if_splits)
    show ?thesis
    proof (cases "i < length (atoms (site w))")
      case True
      have "map occupancy (snd ?r) ! i = map occupancy ?as1 ! i"
        by (simp only: write_thermal_factors_occupancy)
      then have "occupancy (snd ?r ! i) = occupancy (?as1 ! i)"
        using True by simp
      also have "\<dots> = Some v"
        using write_occupancies_nth [OF True i] v by simp
      finally show ?thesis
        using True by (simp add: EditOccupancy at)
    next
      case False
      then show ?thesis by (simp add: EditOccupancy len)
    qed
  next
    case (EditThermalFactor i v)
    with sw have i: "i < length (thermal_factor_spinboxes w)"
      and v: "thermal_factor_spinboxes w ! i = v"
      by (auto split: if_splits)
    from wf have "fst ?r = None"
      by (simp add: well_formed_def write_thermal_factors_known)
    then have "i < length ?as1 \<Longrightarrow> U w v = Inr (atom_U (snd ?r ! i))"
      using write_thermal_factors_nth [of w ?as1 "thermal_factor_spinboxes w" i] i v by simp
    moreover have "U s' v = U w v"
      by (simp add: U_def ty)
    ultimately show ?thesis
      by (simp add: EditThermalFactor at)
  qed
qed

subsection \<open>The setter of the atom types returns\<close>

lemma fill_table_Done:
  "thermal_factor_type s = ''U'' \<or> thermal_factor_type s = ''B'' \<Longrightarrow>
   list_all (\<lambda>a. occupancy a \<noteq> None) as \<Longrightarrow>
   \<exists>s'. fill_table s as = Done s' \<and> site s' = site s \<and>
        thermal_factor_type s' = thermal_factor_type s"
proof (induction as arbitrary: s)
  case Nil
  then show ?case by simp
next
  case (Cons a as)
  from Cons.prems obtain occ where occ: "occupancy a = Some occ"
    by auto
  define s1 where "s1 = create_occupancy_spinbox s occ"
  have ty1: "thermal_factor_type s1 = thermal_factor_type s" and site1: "site s1 = site s"
    by (simp_all add: s1_def create_occupancy_spinbox_def)
  from Cons.prems(1) obtain tf where tf: "thermal_factor s1 a = Inr tf"
    by (auto simp: thermal_factor_def ty1)
  define s2 where "s2 = create_thermal_factor_spinbox s1 tf"
  have ty2: "thermal_factor_type s2 = thermal_factor_type s" and site2: "site s2 = site s"
    by (simp_all add: s2_def create_thermal_factor_spinbox_def ty1 site1)
  have "fill_table s (a # as) = fill_table s2 as"
    by (simp add: occ Let_def tf s1_def [symmetric] s2_def [symmetric])
  moreover from Cons.IH [of s2] Cons.prems
  obtain s' where "fill_table s2 as = Done s'" "site s' = site s2"
    "thermal_factor_type s' = thermal_factor_type s2"
    by (auto simp: ty2)
  ultimately show ?case
    by (simp add: ty2 site2)
qed

lemma update_table_Done:
  assumes "well_formed s"
  shows "\<exists>s'. update_table s = Done s' \<and> site s' = site s \<and>
     thermal_factor_type s' = thermal_factor_type s"
proof -
  from assms have ty: "thermal_factor_type (clear_table s) = ''U'' \<or>
      thermal_factor_type (clear_table s) = ''B''"
    and occ: "list_all (\<lambda>a. occupancy a \<noteq> None) (atoms (site s))"
    by (simp_all add: well_formed_def clear_table_def)
  from fill_table_Done [OF ty occ] obtain s1 where
    s1: "fill_table (clear_table s) (atoms (site s)) = Done s1" "site s1 = site s"
    "thermal_factor_type s1 = thermal_factor_type s"
    by (auto simp: clear_table_def)
  from occupancies_listed [OF occ] obtain os where
    "map occupancy (atoms (site s1)) = map Some os"
    by (auto simp: s1)
  from update_occupancy_validity_listed [OF this] obtain c m where
    "update_occupancy_validity s1 = Done (s1\<lparr>styleSheet := c, toolTip := m\<rparr>)"
    by blast
  then show ?thesis
    by (simp add: update_table_def s1)
qed

lemma reset_loop_eq:
  "n = length as \<Longrightarrow>
   reset_loop tot n as = (None, map (\<lambda>a. a\<lparr>occupancy := Some (tot / real n)\<rparr>) as)"
  by (simp add: reset_loop_length)

lemma set_atom_types_Done:
  assumes ty: "thermal_factor_type self = ''U'' \<or> thermal_factor_type self = ''B''"
  shows "\<exists>s. set_atom_types d self v = Done s"
proof (cases "v = atom_types self")
  case True
  then show ?thesis by (simp add: set_atom_types_def)
next
  case False
  define as where "as = map (\<lambda>x. \<lparr>symbol = x,
       occupancy = Some (total_occupancy (site self) / real (length v)), atom_U = d\<rparr>) v"
  define s1 where "s1 = self\<lparr>site := (site self)\<lparr>atoms := as\<rparr>\<rparr>"
  have os: "map occupancy (atoms (site s1)) =
      map Some (map (\<lambda>x. total_occupancy (site self) / real (length v)) v)"
    by (simp add: s1_def as_def comp_def)
  from update_occupancy_validity_listed [OF os] obtain c m where
    uv: "update_occupancy_validity s1 = Done (s1\<lparr>styleSheet := c, toolTip := m\<rparr>)"
    by blast
  define s2 where "s2 = s1\<lparr>styleSheet := c, toolTip := m\<rparr>"
  have r: "reset_occupancies
      (self\<lparr>site := (site self)\<lparr>atoms :=
         map (\<lambda>x. \<lparr>symbol = x, occupancy = None, atom_U = d\<rparr>) v\<rparr>\<rparr>) = Done s2"
    using uv by (simp add: reset_occupancies_def Let_def reset_loop_eq comp_def
        s1_def as_def s2_def)
  have wf2: "well_formed s2"
    using ty listed_occupancies [OF os] by (simp add: well_formed_def s2_def s1_def)
  from update_table_Done [OF wf2] obtain s3 where
    s3: "update_table s2 = Done s3" "site s3 = site s2"
    by blast
  have "map occupancy (atoms (site s3)) =
      map Some (map (\<lambda>x. total_occupancy (site self) / real (length v)) v)"
    using os by (simp add: s3 s2_def)
  from emit_listed [OF this] obtain s4 where "emit_site_modified_if_valid s3 = Done s4"
    by blast
  then show ?thesis
    using False by (simp add: set_atom_types_def Let_def r s3)
qed

section \<open>The claims\<close>



text \<open>
  C2. From every well-formed editor and after every sequence of user edits, a further
  edit runs to its end, the site holds its value, and the edit emits \<^verbatim>\<open>site_modified\<close>
  exactly once when the sum of the occupancies is within the tolerance of the total
  occupancy afterwards (the test \<^verbatim>\<open>abs(sum - total) < 1.e-6\<close> of the code, in double
  arithmetic), and not at all otherwise.
\<close>

theorem edits_notify_iff_valid:
  assumes "well_formed self"
  shows "\<exists>s1. run_edits self eds = Done s1 \<and>
     (\<forall>w. set_widget s1 ed = Some w \<longrightarrow>
        (\<exists>s2 os. run_edits self (eds @ [ed]) = Done s2 \<and> edit_stored s2 ed \<and>
           map occupancy (atoms (site s2)) = map Some os \<and>
           site_modified s2 = site_modified s1 +
             (if within_tolerance os (total_occupancy (site s2)) then 1 else 0)))"
proof -
  from run_edits_well_formed [OF assms, of eds] obtain s1
    where s1: "run_edits self eds = Done s1" and wf1: "well_formed s1"
    by blast
  have "\<exists>s2 os. run_edits self (eds @ [ed]) = Done s2 \<and> edit_stored s2 ed \<and>
           map occupancy (atoms (site s2)) = map Some os \<and>
           site_modified s2 = site_modified s1 +
             (if within_tolerance os (total_occupancy (site s2)) then 1 else 0)"
    if sw: "set_widget s1 ed = Some w" for w
  proof -
    have wfw: "well_formed w"
      using wf1 sw by (rule set_widget_well_formed)
    from slots_well_formed [OF wfw, of ed] obtain s2 os where
      sl: "slots ed w = Done s2" and
      site: "site s2 = site (state_of (update_config w))" and
      ty: "thermal_factor_type s2 = thermal_factor_type w" and
      os: "map occupancy (atoms (site s2)) = map Some os" and
      sm: "site_modified s2 = site_modified w +
       (if within_tolerance os (total_occupancy (site s2)) then 1 else 0)"
      by blast
    have "run_edits self (eds @ [ed]) = Done s2"
      by (simp add: run_edits_snoc s1 user_edit_def sw sl)
    moreover have "edit_stored s2 ed"
      using wfw sw site ty by (rule edit_stored_after)
    moreover have "site_modified w = site_modified s1"
      using set_widget_same [OF sw] by simp
    ultimately show ?thesis
      using os sm by auto
  qed
  with s1 show ?thesis by blast
qed

text \<open>
  Halving the occupancy of the only atom makes the sum invalid: the site is changed and
  nothing is emitted. Setting it back to 1 emits once. On the site with the occupancies
  0.1, 0.2, 0.3, setting the total occupancy to 0.600001 emits once: the rounded sum is
  within the tolerance of it.
\<close>

theorem edits_notify_iff_valid_witness:
  "well_formed fe_editor \<and>
   run_edits fe_editor [EditOccupancy 0 (1 / 2)] =
     Done (fe_editor\<lparr>site := fe_site\<lparr>atoms := [fe_atom\<lparr>occupancy := Some (1 / 2)\<rparr>]\<rparr>,
        occupancy_spinboxes := [1 / 2], styleSheet := ''background-color: red'',
        toolTip := ''Sum of occupancies must equal total occupancy''\<rparr>) \<and>
   run_edits fe_editor ([EditOccupancy 0 (1 / 2)] @ [EditOccupancy 0 1]) =
     Done (fe_editor\<lparr>site_modified := 1\<rparr>) \<and>
   run_edits three_atoms [EditTotalOccupancy (2702164280021925 / 4503599627370496)] =
     Done (three_atoms\<lparr>site := occupancy_site
        [3602879701896397 / 36028797018963968, 3602879701896397 / 18014398509481984,
         5404319552844595 / 18014398509481984] (2702164280021925 / 4503599627370496),
       ui_total_occupancy := 2702164280021925 / 4503599627370496, site_modified := 1\<rparr>)"
proof -
  have r3: "run_edits three_atoms
      [EditTotalOccupancy (2702164280021925 / 4503599627370496)] =
     Done (three_atoms\<lparr>site := occupancy_site
        [3602879701896397 / 36028797018963968, 3602879701896397 / 18014398509481984,
         5404319552844595 / 18014398509481984] (2702164280021925 / 4503599627370496),
       ui_total_occupancy := 2702164280021925 / 4503599627370496, site_modified := 1\<rparr>)"
    by (simp add: user_edit_def update_config_def update_occupancy_validity_def
        emit_site_modified_if_valid_def site_valid_def occupancies_valid_def U_def
        float_1e_6_def Let_def three_atoms_def occupancy_site_def fe_editor_def fe_site_def
        fe_atom_def tenths_sum del: fadd.simps fsub.simps)
  have wf: "well_formed fe_editor"
    by (simp add: well_formed_def fe_editor_def fe_site_def fe_atom_def)
  have r1: "run_edits fe_editor [EditOccupancy 0 (1 / 2)] =
     Done (fe_editor\<lparr>site := fe_site\<lparr>atoms := [fe_atom\<lparr>occupancy := Some (1 / 2)\<rparr>]\<rparr>,
        occupancy_spinboxes := [1 / 2], styleSheet := ''background-color: red'',
        toolTip := ''Sum of occupancies must equal total occupancy''\<rparr>)"
    by (simp add: user_edit_def update_config_def update_occupancy_validity_def
        emit_site_modified_if_valid_def site_valid_def occupancies_valid_def U_def
        float_1e_6_def Let_def fe_editor_def fe_site_def fe_atom_def)
  from edits_notify_iff_valid [OF wf, of "[EditOccupancy 0 (1 / 2)]" "EditOccupancy 0 1"]
  obtain s2 where
    "run_edits fe_editor ([EditOccupancy 0 (1 / 2)] @ [EditOccupancy 0 1]) = Done s2"
    unfolding r1 by (auto simp: fe_editor_def)
  moreover have "run_edits fe_editor ([EditOccupancy 0 (1 / 2)] @ [EditOccupancy 0 1]) =
     Done (fe_editor\<lparr>site_modified := 1\<rparr>)"
    by (simp add: user_edit_def update_config_def update_occupancy_validity_def
        emit_site_modified_if_valid_def site_valid_def occupancies_valid_def U_def
        float_1e_6_def Let_def fe_editor_def fe_site_def fe_atom_def)
  ultimately show ?thesis using wf r1 r3 by simp
qed

text \<open>
  C3. For every site whose atoms all have an occupancy (they are \<open>os\<close>, in order),
  \<^verbatim>\<open>occupancies_valid\<close> returns whether the absolute value of the difference between
  the sum of the occupancies and the total occupancy is strictly less than the tolerance,
  with the sum taken from 0 and from left to right, and sum, difference and tolerance
  those of double arithmetic; the tolerance is the double nearest to \<open>10\<^sup>-\<^sup>6\<close>.
\<close>

theorem occupancies_valid_iff:
  "map occupancy (atoms (site self)) = map Some os \<Longrightarrow>
   occupancies_valid self =
     Inr (abs_less (fsub (foldl fadd (Finite 0) os) (total_occupancy (site self)))
            float_1e_6) \<and>
   round_double (1 / 10 ^ 6) = Finite float_1e_6"
  using float_1e_6_literal by (simp add: occupancies_valid_def sum_occupancy_Some)

text \<open>
  The verdict at four sites, with the rounding of the code: the occupancies 0.1, 0.2, 0.3
  against the total 0.600001 are valid (the sum is 0.6000000000000001); one occupancy equal
  to the tolerance against the total 0 is not, the next smaller double is; and
  \<open>10\<^sup>1\<^sup>6\<close>, 1, \<open>-10\<^sup>1\<^sup>6\<close> against the total 1 are not, since adding 1 to \<open>10\<^sup>1\<^sup>6\<close> is lost.
\<close>

theorem occupancies_valid_iff_witness:
  "occupancies_valid (fe_editor\<lparr>site := occupancy_site
       [3602879701896397 / 36028797018963968, 3602879701896397 / 18014398509481984,
        5404319552844595 / 18014398509481984] (2702164280021925 / 4503599627370496)\<rparr>) =
     Inr True \<and>
   occupancies_valid (fe_editor\<lparr>site := occupancy_site [float_1e_6] 0\<rparr>) = Inr False \<and>
   occupancies_valid (fe_editor\<lparr>site := occupancy_site
       [1180591620717411 / 1180591620717411303424] 0\<rparr>) = Inr True \<and>
   occupancies_valid (fe_editor\<lparr>site := occupancy_site
       [10000000000000000, 1, - 10000000000000000] 1\<rparr>) = Inr False"
proof -
  have av: "abs_less (fsub (foldl fadd (Finite 0)
      [3602879701896397 / 36028797018963968, 3602879701896397 / 18014398509481984,
       5404319552844595 / 18014398509481984]) (2702164280021925 / 4503599627370496))
      float_1e_6 = True"
    by (simp only: foldl.simps tenths_sum) (simp add: float_1e_6_def)
  have b0: "fadd (Finite 0) float_1e_6 = Finite float_1e_6"
    using round_double_binade [of "- 20" "0 + float_1e_6"]
    by (simp add: round_half_even_def powr_minus float_1e_6_def)
  have bd: "fsub (Finite float_1e_6) 0 = Finite float_1e_6"
    using round_double_binade [of "- 20" "float_1e_6 - 0"]
    by (simp add: round_half_even_def powr_minus float_1e_6_def)
  have bv: "abs_less (fsub (foldl fadd (Finite 0) [float_1e_6]) 0) float_1e_6 = False"
    by (simp only: foldl.simps b0 bd) simp
  have c0: "fadd (Finite 0) (1180591620717411 / 1180591620717411303424) =
      Finite (1180591620717411 / 1180591620717411303424)"
    using round_double_binade [of "- 20" "0 + 1180591620717411 / 1180591620717411303424"]
    by (simp add: round_half_even_def powr_minus)
  have cd: "fsub (Finite (1180591620717411 / 1180591620717411303424)) 0 =
      Finite (1180591620717411 / 1180591620717411303424)"
    using round_double_binade [of "- 20" "1180591620717411 / 1180591620717411303424 - 0"]
    by (simp add: round_half_even_def powr_minus)
  have cv: "abs_less (fsub (foldl fadd (Finite 0)
      [1180591620717411 / 1180591620717411303424]) 0) float_1e_6 = True"
    by (simp only: foldl.simps c0 cd) (simp add: float_1e_6_def)
  have g0: "fadd (Finite 0) 10000000000000000 = Finite 10000000000000000"
    using round_double_binade [of 53 "0 + 10000000000000000"]
    by (simp add: round_half_even_def powr_minus)
  have g1: "fadd (Finite 10000000000000000) 1 = Finite 10000000000000000"
    using round_double_binade [of 53 "10000000000000000 + 1"]
    by (simp add: round_half_even_def powr_minus)
  have g2: "fadd (Finite 10000000000000000) (- 10000000000000000) = Finite 0"
    by simp
  have gd: "fsub (Finite 0) 1 = Finite (- 1)"
    by simp
  have gv: "abs_less (fsub (foldl fadd (Finite 0)
      [10000000000000000, 1, - 10000000000000000]) 1) float_1e_6 = False"
    by (simp only: foldl.simps g0 g1 g2 gd) (simp add: float_1e_6_def)
  have os: "map occupancy (atoms (site (fe_editor\<lparr>site := occupancy_site os t\<rparr>))) =
      map Some os" for os t
    by (simp add: occupancy_site_def comp_def)
  have tot: "total_occupancy (site (fe_editor\<lparr>site := occupancy_site os t\<rparr>)) = t" for os t
    by (simp add: occupancy_site_def)
  show ?thesis
    unfolding occupancies_valid_iff [OF os, THEN conjunct1] tot av bv cv gv by simp
qed

text \<open>
  C4 (as stated, refuted). The table has two rows and the site one atom, so row 1 is
  outside the range of the atoms. Editing the occupancy or the thermal factor of that row
  raises nothing: \<^verbatim>\<open>update_config\<close> runs to its end and emits \<^verbatim>\<open>site_modified\<close>.
\<close>

theorem edit_beyond_atoms_counterexample:
  "length (atoms (site two_rows)) = 1 \<and>
   user_edit two_rows (EditOccupancy 1 (1 / 2)) =
     Done (two_rows\<lparr>occupancy_spinboxes := [1, 1 / 2], site_modified := 1\<rparr>) \<and>
   user_edit two_rows (EditThermalFactor 1 5) =
     Done (two_rows\<lparr>thermal_factor_spinboxes := [0, 5], site_modified := 1\<rparr>)"
  by (simp add: user_edit_def update_config_def update_occupancy_validity_def
        emit_site_modified_if_valid_def site_valid_def occupancies_valid_def U_def
        float_1e_6_def Let_def two_rows_def fe_editor_def fe_site_def fe_atom_def)

text \<open>
  C4 (amended). In a well-formed editor, an edit of the occupancy or thermal factor at an
  index that is not an index of an atom raises nothing, and its value reaches no atom:
  either no signal is emitted and the site is untouched, or \<^verbatim>\<open>update_config\<close> writes
  the site exactly as it would have without the edit.
\<close>

theorem edit_beyond_atoms:
  assumes wf: "well_formed self" and i: "length (atoms (site self)) \<le> i"
  shows "(\<exists>s. user_edit self (EditOccupancy i v) = Done s \<and>
            site s = (if set_widget self (EditOccupancy i v) = None then site self
                      else site (state_of (update_config self)))) \<and>
         (\<exists>s. user_edit self (EditThermalFactor i v) = Done s \<and>
            site s = (if set_widget self (EditThermalFactor i v) = None then site self
                      else site (state_of (update_config self))))"
proof -
  have "\<exists>s. user_edit self ed = Done s \<and>
            site s = (if set_widget self ed = None then site self
                      else site (state_of (update_config self)))"
    if ed: "ed = EditOccupancy i v \<or> ed = EditThermalFactor i v" for ed
  proof (cases "set_widget self ed")
    case None
    then show ?thesis by (simp add: user_edit_def)
  next
    case (Some w)
    have wfw: "well_formed w"
      using wf Some by (rule set_widget_well_formed)
    from slots_well_formed [OF wfw, of ed] obtain s where
      sl: "slots ed w = Done s" and site: "site s = site (state_of (update_config w))"
      by blast
    have ty: "thermal_factor_type w = thermal_factor_type self"
      using set_widget_same [OF Some] by simp
    have "site (state_of (update_config w)) = site (state_of (update_config self))"
      using ed
    proof
      assume "ed = EditOccupancy i v"
      with Some have w: "w = self\<lparr>occupancy_spinboxes := (occupancy_spinboxes self)[i := v]\<rparr>"
        by (auto split: if_splits)
      show ?thesis
        unfolding site_update_config
        by (simp add: w write_occupancies_beyond [OF i]
            write_thermal_factors_type [of "self\<lparr>occupancy_spinboxes := (occupancy_spinboxes self)[i := v]\<rparr>" self])
    next
      assume "ed = EditThermalFactor i v"
      with Some have w: "w = self\<lparr>thermal_factor_spinboxes := (thermal_factor_spinboxes self)[i := v]\<rparr>"
        by (auto split: if_splits)
      show ?thesis
        unfolding site_update_config
        by (simp add: w write_thermal_factors_beyond i
            write_thermal_factors_type [of "self\<lparr>thermal_factor_spinboxes := (thermal_factor_spinboxes self)[i := v]\<rparr>" self])
    qed
    with sl site show ?thesis
      by (simp add: user_edit_def Some)
  qed
  then show ?thesis by blast
qed

theorem edit_beyond_atoms_witness:
  "well_formed two_rows \<and> length (atoms (site two_rows)) \<le> 1 \<and>
   set_widget two_rows (EditOccupancy 1 (1 / 2)) \<noteq> None \<and>
   (\<exists>s. user_edit two_rows (EditOccupancy 1 (1 / 2)) = Done s \<and>
        site s = site (state_of (update_config two_rows))) \<and>
   set_widget two_rows (EditThermalFactor 1 5) \<noteq> None \<and>
   (\<exists>s. user_edit two_rows (EditThermalFactor 1 5) = Done s \<and>
        site s = site (state_of (update_config two_rows)))"
proof -
  have wf: "well_formed two_rows"
    by (simp add: well_formed_def two_rows_def fe_editor_def fe_site_def fe_atom_def)
  have i: "length (atoms (site two_rows)) \<le> 1"
    by (simp add: two_rows_def fe_editor_def fe_site_def)
  have a: "set_widget two_rows (EditOccupancy 1 (1 / 2)) \<noteq> None"
    by (simp add: two_rows_def fe_editor_def)
  have b: "set_widget two_rows (EditThermalFactor 1 5) \<noteq> None"
    by (simp add: two_rows_def fe_editor_def)
  from edit_beyond_atoms [OF wf i, of "1 / 2"] a
  have c: "\<exists>s. user_edit two_rows (EditOccupancy 1 (1 / 2)) = Done s \<and>
        site s = site (state_of (update_config two_rows))"
    by (simp del: set_widget.simps not_None_eq One_nat_def)
  from edit_beyond_atoms [OF wf i, of 5] b
  have d: "\<exists>s. user_edit two_rows (EditThermalFactor 1 5) = Done s \<and>
        site s = site (state_of (update_config two_rows))"
    by (simp del: set_widget.simps not_None_eq One_nat_def)
  from wf i a b c d show ?thesis by blast
qed

text \<open>
  C5 (as stated, refuted). On a site without atoms the loop of \<^verbatim>\<open>reset_occupancies\<close>
  has no iteration, so the division in its body is not evaluated: the call returns
  normally, the list of atoms is still empty, and no occupancy value exists.
\<close>

theorem reset_occupancies_no_atoms_counterexample:
  "reset_occupancies (fe_editor\<lparr>site := fe_site\<lparr>atoms := []\<rparr>\<rparr>) =
     Done (fe_editor\<lparr>site := fe_site\<lparr>atoms := []\<rparr>,
        styleSheet := ''background-color: red'',
        toolTip := ''Sum of occupancies must equal total occupancy''\<rparr>)"
  by (simp add: reset_occupancies_def update_occupancy_validity_def occupancies_valid_def
      float_1e_6_def fe_editor_def fe_site_def)

text \<open>
  C5 (amended). For every site whose list of atoms is empty, \<^verbatim>\<open>reset_occupancies\<close>
  raises nothing and leaves the site as it is.
\<close>

theorem reset_occupancies_no_atoms:
  "atoms (site self) = [] \<Longrightarrow> \<exists>s. reset_occupancies self = Done s \<and> site s = site self"
  by (simp add: reset_occupancies_def update_occupancy_validity_def occupancies_valid_def)

theorem reset_occupancies_no_atoms_witness:
  "atoms (site (fe_editor\<lparr>site := fe_site\<lparr>atoms := []\<rparr>\<rparr>)) = [] \<and>
   (\<exists>s. reset_occupancies (fe_editor\<lparr>site := fe_site\<lparr>atoms := []\<rparr>\<rparr>) = Done s \<and>
        site s = fe_site\<lparr>atoms := []\<rparr>)"
  using reset_occupancies_no_atoms [of "fe_editor\<lparr>site := fe_site\<lparr>atoms := []\<rparr>\<rparr>"]
  by simp

text \<open>
  C6. Setting the atom types to the current list of symbols returns at once: the editor,
  its site and the count of emitted notifications are what they were.
\<close>

theorem set_atom_types_same:
  "set_atom_types d self (atom_types self) = Done self \<and>
   select_atom_types d self (Some (atom_types self)) = Done self"
  by (simp add: set_atom_types_def select_atom_types_def)

text \<open>
  C7. For every list of symbols \<open>v\<close> that differs from the current one, after the setter
  the atoms of the site are one atom per symbol of \<open>v\<close>, in order, each with \<open>U\<close> the
  default and with occupancy the total occupancy divided by the number of symbols; when
  the display type is "U" or "B" the setter returns normally.
\<close>

theorem set_atom_types_new:
  "v \<noteq> atom_types self \<Longrightarrow>
   atoms (site (state_of (set_atom_types d self v))) =
     map (\<lambda>x. \<lparr>symbol = x,
               occupancy = Some (total_occupancy (site self) / real (length v)),
               atom_U = d\<rparr>) v \<and>
   (thermal_factor_type self = ''U'' \<or> thermal_factor_type self = ''B'' \<longrightarrow>
      (\<exists>s. set_atom_types d self v = Done s))"
  by (simp add: site_set_atom_types set_atom_types_Done)

text \<open>The instance of the claim: iron and oxygen on a site of total occupancy 1.\<close>

theorem set_atom_types_new_witness:
  "[''Fe'', ''O''] \<noteq> atom_types fe_editor \<and> total_occupancy (site fe_editor) = 1 \<and>
   atoms (site (state_of (set_atom_types (633 / 100000) fe_editor [''Fe'', ''O'']))) =
     [\<lparr>symbol = ''Fe'', occupancy = Some (1 / 2), atom_U = 633 / 100000\<rparr>,
      \<lparr>symbol = ''O'', occupancy = Some (1 / 2), atom_U = 633 / 100000\<rparr>] \<and>
   (\<exists>s. set_atom_types (633 / 100000) fe_editor [''Fe'', ''O''] = Done s)"
proof -
  have ne: "[''Fe'', ''O''] \<noteq> atom_types fe_editor"
    by (simp add: atom_types_def fe_editor_def fe_site_def)
  have ty: "thermal_factor_type fe_editor = ''B''"
    by (simp add: fe_editor_def)
  have tot: "total_occupancy (site fe_editor) = 1"
    by (simp add: fe_editor_def fe_site_def)
  show ?thesis
    using ne tot set_atom_types_new [OF ne, of "633 / 100000"]
    by (simp add: ty)
qed

text \<open>
  C8. \<^verbatim>\<open>thermal_factor\<close> returns the stored \<open>U\<close> of the atom when the display type is
  "U" and \<open>U * 8\<pi>\<^sup>2\<close> when it is "B"; it is a function of the editor and the atom and
  changes neither.
\<close>

theorem thermal_factor_display:
  "thermal_factor (self\<lparr>thermal_factor_type := ''U''\<rparr>) atom = Inr (atom_U atom) \<and>
   thermal_factor (self\<lparr>thermal_factor_type := ''B''\<rparr>) atom = Inr (atom_U atom * (8 * pi ^ 2))"
  by (simp add: thermal_factor_def U_TO_B_def)

text \<open>
  C9. When the display type is neither "U" nor "B", \<^verbatim>\<open>U\<close>, \<^verbatim>\<open>B\<close> and
  \<^verbatim>\<open>thermal_factor\<close> raise the exception "Unknown type", and their callers do not catch
  it: \<^verbatim>\<open>update_config\<close> raises it as soon as an atom is paired with a thermal factor
  spin box, and \<^verbatim>\<open>update_table\<close> at the first row.
\<close>

theorem unknown_type_raises:
  assumes "thermal_factor_type self \<noteq> ''U''" and "thermal_factor_type self \<noteq> ''B''"
  shows "U self v = Inl (Exception (''Unknown type: '' @ thermal_factor_type self)) \<and>
     B self v = Inl (Exception (''Unknown type: '' @ thermal_factor_type self)) \<and>
     thermal_factor self atom = Inl (Exception (''Unknown type: '' @ thermal_factor_type self)) \<and>
     (atoms (site self) \<noteq> [] \<and> thermal_factor_spinboxes self \<noteq> [] \<longrightarrow>
        (\<exists>s. update_config self =
           Raised (Exception (''Unknown type: '' @ thermal_factor_type self)) s)) \<and>
     (\<forall>a as occ. atoms (site self) = a # as \<and> occupancy a = Some occ \<longrightarrow>
        (\<exists>s. update_table self =
           Raised (Exception (''Unknown type: '' @ thermal_factor_type self)) s))"
proof -
  have u: "U self v = Inl (Exception (''Unknown type: '' @ thermal_factor_type self))" for v
    using assms by (simp add: U_def)
  have b: "B self v = Inl (Exception (''Unknown type: '' @ thermal_factor_type self))"
    using assms by (simp add: B_def)
  have t: "thermal_factor s atom = Inl (Exception (''Unknown type: '' @ thermal_factor_type self))"
    if "thermal_factor_type s = thermal_factor_type self" for s atom
    using assms that by (simp add: thermal_factor_def)
  have c: "\<exists>s. update_config self =
           Raised (Exception (''Unknown type: '' @ thermal_factor_type self)) s"
    if "atoms (site self) \<noteq> []" "thermal_factor_spinboxes self \<noteq> []"
  proof -
    from that obtain a as w ws where
      "atoms (site self) = a # as" "thermal_factor_spinboxes self = w # ws"
      by (cases "atoms (site self)"; cases "thermal_factor_spinboxes self") auto
    then show ?thesis
      by (cases "occupancy_spinboxes self") (simp_all add: update_config_def Let_def u)
  qed
  have d: "\<exists>s. update_table self =
           Raised (Exception (''Unknown type: '' @ thermal_factor_type self)) s"
    if "atoms (site self) = a # as" "occupancy a = Some occ" for a as occ
    using that
    by (simp add: update_table_def Let_def t clear_table_def create_occupancy_spinbox_def)
  from u b t [of self] c d show ?thesis by blast
qed

theorem unknown_type_raises_witness:
  "thermal_factor_type (fe_editor\<lparr>thermal_factor_type := ''A''\<rparr>) \<noteq> ''U'' \<and>
   thermal_factor_type (fe_editor\<lparr>thermal_factor_type := ''A''\<rparr>) \<noteq> ''B'' \<and>
   U (fe_editor\<lparr>thermal_factor_type := ''A''\<rparr>) 1 = Inl (Exception ''Unknown type: A'') \<and>
   B (fe_editor\<lparr>thermal_factor_type := ''A''\<rparr>) 1 = Inl (Exception ''Unknown type: A'') \<and>
   thermal_factor (fe_editor\<lparr>thermal_factor_type := ''A''\<rparr>) fe_atom =
     Inl (Exception ''Unknown type: A'') \<and>
   (\<exists>s. update_config (fe_editor\<lparr>thermal_factor_type := ''A''\<rparr>) =
      Raised (Exception ''Unknown type: A'') s) \<and>
   (\<exists>s. update_table (fe_editor\<lparr>thermal_factor_type := ''A''\<rparr>) =
      Raised (Exception ''Unknown type: A'') s)"
proof -
  let ?e = "fe_editor\<lparr>thermal_factor_type := ''A''\<rparr>"
  have 1: "thermal_factor_type ?e \<noteq> ''U''" and 2: "thermal_factor_type ?e \<noteq> ''B''"
    by simp_all
  have 3: "atoms (site ?e) \<noteq> [] \<and> thermal_factor_spinboxes ?e \<noteq> []"
    by (simp add: fe_editor_def fe_site_def)
  have 4: "atoms (site ?e) = fe_atom # [] \<and> occupancy fe_atom = Some 1"
    by (simp add: fe_editor_def fe_site_def fe_atom_def)
  from unknown_type_raises [OF 1 2, of 1 fe_atom] 3 4 show ?thesis
    by (simp del: One_nat_def)
qed

text \<open>
  C10. The setter of the atom types changes neither the total occupancy nor the
  fractional coordinates of the site, whatever the list of symbols.
\<close>

theorem set_atom_types_frame:
  "total_occupancy (site (state_of (set_atom_types d self v))) = total_occupancy (site self) \<and>
   fractional_coords (site (state_of (set_atom_types d self v))) =
     fractional_coords (site self)"
  by (cases "v = atom_types self")
     (simp_all add: site_set_atom_types, simp_all add: set_atom_types_def)

end
